theory Spec2Isabelle
  imports Main "HOL-Library.AList"
begin

section \<open>JavaScript values\<close>

text \<open>
  The values that flow through the two classes: decoded JSON bodies, response texts and
  the results of the caller's transform. Strings are the UTF-8 bytes of the JavaScript
  string; numbers are restricted to integers (status codes, counters, the \<open>1\<close> of
  \<open>{a: 1}\<close>), meant within the range JavaScript holds exactly (below \<open>2^53\<close> in
  magnitude). An object is the list of its own properties, each key once.
\<close>

datatype jsval =
    JUndefined
  | JNull
  | JBool bool
  | JNum int
  | JStr string
  | JArr "jsval list"
  | JObj "(string \<times> jsval) list"

text \<open>Truthiness, as \<open>||\<close>, \<open>&&\<close> and \<open>?:\<close> test it.\<close>

fun truthy :: "jsval \<Rightarrow> bool" where
  "truthy JUndefined = False"
| "truthy JNull = False"
| "truthy (JBool b) = b"
| "truthy (JNum n) = (n \<noteq> 0)"
| "truthy (JStr s) = (s \<noteq> [])"
| "truthy (JArr _) = True"
| "truthy (JObj _) = True"

fun nullish :: "jsval \<Rightarrow> bool" where
  "nullish JUndefined = True"
| "nullish JNull = True"
| "nullish _ = False"

subsection \<open>Thrown values\<close>

text \<open>
  An object that is thrown: an \<open>Error\<close> instance (\<open>err_name\<close> is its class, \<open>err_message\<close>
  its message) or a plain object (both \<open>None\<close>), with the properties the two classes
  set or read. A status, when the object has one, is an integer, as \<open>response.status\<close> is.
\<close>

record failure =
  err_name :: "string option"
  err_message :: "string option"
  err_status :: "int option"
  err_statusText :: "string option"
  err_url :: "string option"
  err_data :: "jsval option"

text \<open>\<open>new cls(msg)\<close> for a message that is a string already.\<close>

definition new_Error :: "string \<Rightarrow> string \<Rightarrow> failure" where
  "new_Error cls msg =
     \<lparr>err_name = Some cls, err_message = Some msg, err_status = None,
      err_statusText = None, err_url = None, err_data = None\<rparr>"

text \<open>
  What a promise rejects with, or a \<open>throw\<close> throws: any value, that is a primitive or
  an object.
\<close>

datatype thrown =
    Threw_undefined
  | Threw_null
  | Threw_bool bool
  | Threw_num int
  | Threw_str string
  | Obj failure

text \<open>
  Reading a property of \<open>undefined\<close> or \<open>null\<close> throws a \<open>TypeError\<close> (the wording of
  its message is the engine's; V8's is used). Of any other value the read yields the own
  property or \<open>undefined\<close>; the built-in properties of strings and arrays are not
  modelled, and none of the names the source reads (\<open>response\<close>, \<open>body\<close>, \<open>items\<close>,
  \<open>item\<close>, \<open>message\<close>, \<open>a\<close>) is one.
\<close>

definition cannot_read :: "jsval \<Rightarrow> string \<Rightarrow> failure" where
  "cannot_read v k =
     new_Error ''TypeError''
       (''Cannot read properties of '' @ (if v = JNull then ''null'' else ''undefined'')
        @ '' (reading '' @ [CHR 0x27] @ k @ [CHR 0x27] @ '')'')"

fun own_prop :: "jsval \<Rightarrow> string \<Rightarrow> jsval" where
  "own_prop (JObj kvs) k = (case map_of kvs k of Some v \<Rightarrow> v | None \<Rightarrow> JUndefined)"
| "own_prop _ k = JUndefined"

definition get_prop :: "jsval \<Rightarrow> string \<Rightarrow> thrown + jsval" where
  "get_prop v k = (if nullish v then Inl (Obj (cannot_read v k)) else Inr (own_prop v k))"

text \<open>Optional chaining \<open>v?.k\<close>.\<close>

definition optional_prop :: "jsval \<Rightarrow> string \<Rightarrow> jsval" where
  "optional_prop v k = (if nullish v then JUndefined else own_prop v k)"

subsection \<open>Conversion to a string\<close>

text \<open>
  \<open>String(v)\<close>, as the \<open>Error\<close> constructor applies it to its argument. An integer is
  printed in decimal, which is the conversion for the integers below \<open>10^21\<close> in
  magnitude. An array is the join of its elements by commas, \<open>null\<close> and \<open>undefined\<close>
  elements printing as nothing. A decoded JSON object prints as \<open>[object Object]\<close>,
  unless it has an own property \<open>toString\<close>: that one is no function, and the
  conversion throws a \<open>TypeError\<close>.
\<close>

function digits :: "nat \<Rightarrow> string" where
  "digits n =
     (if n < 10 then [''0123456789'' ! n]
      else digits (n div 10) @ [''0123456789'' ! (n mod 10)])"
  by pat_completeness auto
termination
  by (relation "measure (\<lambda>n. n)") auto

definition cannot_convert :: failure where
  "cannot_convert = new_Error ''TypeError'' ''Cannot convert object to primitive value''"

fun js_String :: "jsval \<Rightarrow> thrown + string"
  and js_join :: "jsval list \<Rightarrow> thrown + string" where
  "js_String JUndefined = Inr ''undefined''"
| "js_String JNull = Inr ''null''"
| "js_String (JBool b) = Inr (if b then ''true'' else ''false'')"
| "js_String (JNum n) = Inr (if n < 0 then ''-'' @ digits (nat (- n)) else digits (nat n))"
| "js_String (JStr s) = Inr s"
| "js_String (JArr xs) = js_join xs"
| "js_String (JObj kvs) =
     (if ''toString'' \<in> fst ` set kvs then Inl (Obj cannot_convert)
      else Inr ''[object Object]'')"
| "js_join [] = Inr []"
| "js_join (x # xs) =
     (case (if nullish x then Inr [] else js_String x) of
        Inl type_error \<Rightarrow> Inl type_error
      | Inr s \<Rightarrow>
          if xs = [] then Inr s
          else (case js_join xs of
                  Inl type_error \<Rightarrow> Inl type_error
                | Inr t \<Rightarrow> Inr (s @ '','' @ t)))"

section \<open>ApiService\<close>

subsection \<open>The status table\<close>

text \<open>The six Korean messages of the table, as their UTF-8 bytes.\<close>

definition msg_400 :: string where
  "msg_400 = [CHR 0xEC, CHR 0x9E, CHR 0x98, CHR 0xEB, CHR 0xAA, CHR 0xBB, CHR 0xEB, CHR 0x90,
     CHR 0x9C, CHR 0x20, CHR 0xEC, CHR 0x9A, CHR 0x94, CHR 0xEC, CHR 0xB2, CHR 0xAD, CHR 0xEC,
     CHR 0x9E, CHR 0x85, CHR 0xEB, CHR 0x8B, CHR 0x88, CHR 0xEB, CHR 0x8B, CHR 0xA4, CHR 0x2E]"

definition msg_401 :: string where
  "msg_401 = [CHR 0xEC, CHR 0x9D, CHR 0xB8, CHR 0xEC, CHR 0xA6, CHR 0x9D, CHR 0xEC, CHR 0x9D,
     CHR 0xB4, CHR 0x20, CHR 0xED, CHR 0x95, CHR 0x84, CHR 0xEC, CHR 0x9A, CHR 0x94, CHR 0xED,
     CHR 0x95, CHR 0xA9, CHR 0xEB, CHR 0x8B, CHR 0x88, CHR 0xEB, CHR 0x8B, CHR 0xA4, CHR 0x2E]"

definition msg_403 :: string where
  "msg_403 = [CHR 0xEC, CHR 0xA0, CHR 0x91, CHR 0xEA, CHR 0xB7, CHR 0xBC, CHR 0xEC, CHR 0x9D,
     CHR 0xB4, CHR 0x20, CHR 0xEA, CHR 0xB1, CHR 0xB0, CHR 0xEB, CHR 0xB6, CHR 0x80, CHR 0xEB,
     CHR 0x90, CHR 0x98, CHR 0xEC, CHR 0x97, CHR 0x88, CHR 0xEC, CHR 0x8A, CHR 0xB5, CHR 0xEB,
     CHR 0x8B, CHR 0x88, CHR 0xEB, CHR 0x8B, CHR 0xA4, CHR 0x2E]"

definition msg_404 :: string where
  "msg_404 = [CHR 0xEB, CHR 0x8D, CHR 0xB0, CHR 0xEC, CHR 0x9D, CHR 0xB4, CHR 0xED, CHR 0x84,
     CHR 0xB0, CHR 0xEB, CHR 0xA5, CHR 0xBC, CHR 0x20, CHR 0xEC, CHR 0xB0, CHR 0xBE, CHR 0xEC,
     CHR 0x9D, CHR 0x84, CHR 0x20, CHR 0xEC, CHR 0x88, CHR 0x98, CHR 0x20, CHR 0xEC, CHR 0x97,
     CHR 0x86, CHR 0xEC, CHR 0x8A, CHR 0xB5, CHR 0xEB, CHR 0x8B, CHR 0x88, CHR 0xEB, CHR 0x8B,
     CHR 0xA4, CHR 0x2E]"

definition msg_429 :: string where
  "msg_429 = [CHR 0xEC, CHR 0x9A, CHR 0x94, CHR 0xEC, CHR 0xB2, CHR 0xAD, CHR 0xEC, CHR 0x9D,
     CHR 0xB4, CHR 0x20, CHR 0xEB, CHR 0x84, CHR 0x88, CHR 0xEB, CHR 0xAC, CHR 0xB4, CHR 0x20,
     CHR 0xEB, CHR 0xA7, CHR 0x8E, CHR 0xEC, CHR 0x8A, CHR 0xB5, CHR 0xEB, CHR 0x8B, CHR 0x88,
     CHR 0xEB, CHR 0x8B, CHR 0xA4, CHR 0x2E, CHR 0x20, CHR 0xEB, CHR 0x82, CHR 0x98, CHR 0xEC,
     CHR 0xA4, CHR 0x91, CHR 0xEC, CHR 0x97, CHR 0x90, CHR 0x20, CHR 0xEB, CHR 0x8B, CHR 0xA4,
     CHR 0xEC, CHR 0x8B, CHR 0x9C, CHR 0x20, CHR 0xEC, CHR 0x8B, CHR 0x9C, CHR 0xEB, CHR 0x8F,
     CHR 0x84, CHR 0xED, CHR 0x95, CHR 0x98, CHR 0xEC, CHR 0x84, CHR 0xB8, CHR 0xEC, CHR 0x9A,
     CHR 0x94, CHR 0x2E]"

definition msg_500 :: string where
  "msg_500 = [CHR 0xEC, CHR 0x84, CHR 0x9C, CHR 0xEB, CHR 0xB2, CHR 0x84, CHR 0x20, CHR 0xEC,
     CHR 0x98, CHR 0xA4, CHR 0xEB, CHR 0xA5, CHR 0x98, CHR 0xEA, CHR 0xB0, CHR 0x80, CHR 0x20,
     CHR 0xEB, CHR 0xB0, CHR 0x9C, CHR 0xEC, CHR 0x83, CHR 0x9D, CHR 0xED, CHR 0x96, CHR 0x88,
     CHR 0xEC, CHR 0x8A, CHR 0xB5, CHR 0xEB, CHR 0x8B, CHR 0x88, CHR 0xEB, CHR 0x8B, CHR 0xA4,
     CHR 0x2E]"

text \<open>The object literal \<open>messages\<close> of \<open>getErrorMessageByStatus\<close>.\<close>

definition messages :: "(int \<times> string) list" where
  "messages =
     [(400, msg_400), (401, msg_401), (403, msg_403),
      (404, msg_404), (429, msg_429), (500, msg_500)]"

text \<open>
  \<open>messages[status] || fallback\<close>: every entry is a non-empty string, hence truthy, so
  the fallback is taken exactly when the table has no entry.
\<close>

definition getErrorMessageByStatus :: "int \<Rightarrow> string \<Rightarrow> string" where
  "getErrorMessageByStatus status fallback =
     (case map_of messages status of Some m \<Rightarrow> m | None \<Rightarrow> fallback)"

subsection \<open>request\<close>

text \<open>
  The options object of \<open>request\<close> as the caller passes it (a property may be missing),
  and the local bindings after the destructuring defaults.
\<close>

record request_options =
  opt_retries :: "nat option"
  opt_retryDelay :: "nat option"
  opt_errorMessage :: "string option"
  opt_transformResponse :: "(jsval \<Rightarrow> thrown + jsval) option"
  opt_validateStatus :: "(jsval \<Rightarrow> bool) option"

record settings =
  retries :: nat
  retryDelay :: nat
  errorMessage :: string
  transformResponse :: "jsval \<Rightarrow> thrown + jsval"
  validateStatus :: "(jsval \<Rightarrow> bool) option"

definition no_options :: request_options where
  "no_options =
     \<lparr>opt_retries = None, opt_retryDelay = None, opt_errorMessage = None,
      opt_transformResponse = None, opt_validateStatus = None\<rparr>"

definition destructure :: "request_options \<Rightarrow> settings" where
  "destructure opts =
     \<lparr>retries = (case opt_retries opts of Some n \<Rightarrow> n | None \<Rightarrow> 1),
      retryDelay = (case opt_retryDelay opts of Some d \<Rightarrow> d | None \<Rightarrow> 1000),
      errorMessage = (case opt_errorMessage opts of Some m \<Rightarrow> m | None \<Rightarrow> ''API request failed.''),
      transformResponse = (case opt_transformResponse opts of Some t \<Rightarrow> t | None \<Rightarrow> Inr),
      validateStatus = opt_validateStatus opts\<rparr>"

text \<open>
  What a call of \<open>request\<close> does besides returning: the counter \<open>attempts\<close> of the
  source, the number of times the thunk was invoked, and the timeouts awaited, in order.
\<close>

record run =
  attempts :: nat
  invocations :: nat
  waits :: "nat list"

definition start :: run where
  "start = \<lparr>attempts = 0, invocations = 0, waits = []\<rparr>"

text \<open>
  What \<open>request\<close> rejects with: \<open>new Error(message)\<close> with \<open>originalError\<close> set, or
  what the \<open>catch\<close> block itself throws before it gets there.
\<close>

record enhanced =
  message :: string
  originalError :: thrown

datatype rejection =
    Enhanced enhanced
  | Uncaught thrown

text \<open>
  The thunk \<open>requestFn\<close> takes no argument; \<open>requestFn k\<close> is the outcome of its
  invocation number \<open>k\<close> (from 0): \<open>Inl\<close> the value it rejects with, \<open>Inr\<close> the
  response it resolves to.
\<close>

type_synonym thunk = "nat \<Rightarrow> thrown + jsval"

definition validation_failed :: failure where
  "validation_failed = new_Error ''Error'' ''Custom validation failed.''"

text \<open>The \<open>try\<close> block of \<open>tryRequest\<close>, at invocation \<open>k\<close> of the thunk.\<close>

definition try_block :: "thunk \<Rightarrow> settings \<Rightarrow> nat \<Rightarrow> thrown + jsval" where
  "try_block requestFn cfg k =
     (case requestFn k of
        Inl err \<Rightarrow> Inl err
      | Inr res \<Rightarrow>
          if (case validateStatus cfg of None \<Rightarrow> False | Some p \<Rightarrow> \<not> p res)
          then Inl (Obj validation_failed)
          else transformResponse cfg res)"

text \<open>
  A response passes \<open>validateStatus && !validateStatus(res)\<close> when no validator is
  given or the validator holds of it.
\<close>

definition accepted :: "settings \<Rightarrow> jsval \<Rightarrow> bool" where
  "accepted cfg res = (case validateStatus cfg of None \<Rightarrow> True | Some p \<Rightarrow> p res)"

text \<open>
  The end of the \<open>catch\<close> block. \<open>err.status\<close> is read of whatever was caught: of
  \<open>null\<close> or \<open>undefined\<close> the read throws, of another primitive it is \<open>undefined\<close>, of
  an object it is the object's status, if any.
\<close>

fun nullish_thrown :: "thrown \<Rightarrow> bool" where
  "nullish_thrown Threw_undefined = True"
| "nullish_thrown Threw_null = True"
| "nullish_thrown _ = False"

fun carried_status :: "thrown \<Rightarrow> int option" where
  "carried_status (Obj e) = err_status e"
| "carried_status _ = None"

fun read_status :: "thrown \<Rightarrow> thrown + int option" where
  "read_status Threw_undefined = Inl (Obj (cannot_read JUndefined ''status''))"
| "read_status Threw_null = Inl (Obj (cannot_read JNull ''status''))"
| "read_status err = Inr (carried_status err)"

text \<open>
  \<open>err.status ? this.getErrorMessageByStatus(err.status, errorMessage) : errorMessage\<close>,
  for the status that was read (0 is falsy).
\<close>

definition final_message :: "settings \<Rightarrow> int option \<Rightarrow> string" where
  "final_message cfg st =
     (case st of
        Some s \<Rightarrow> if s \<noteq> 0 then getErrorMessageByStatus s (errorMessage cfg)
                  else errorMessage cfg
      | None \<Rightarrow> errorMessage cfg)"

definition enhance :: "settings \<Rightarrow> thrown \<Rightarrow> rejection" where
  "enhance cfg err =
     (case read_status err of
        Inl type_error \<Rightarrow> Uncaught type_error
      | Inr st \<Rightarrow> Enhanced \<lparr>message = final_message cfg st, originalError = err\<rparr>)"

function tryRequest :: "thunk \<Rightarrow> settings \<Rightarrow> run \<Rightarrow> (rejection + jsval) \<times> run" where
  "tryRequest requestFn cfg st =
     (case try_block requestFn cfg (invocations st) of
        Inr v \<Rightarrow> (Inr v, st\<lparr>invocations := invocations st + 1\<rparr>)
      | Inl err \<Rightarrow>
          if attempts st < retries cfg
          then tryRequest requestFn cfg
                 (st\<lparr>attempts := attempts st + 1,
                     invocations := invocations st + 1,
                     waits := waits st @ [retryDelay cfg]\<rparr>)
          else (Inl (enhance cfg err), st\<lparr>invocations := invocations st + 1\<rparr>))"
  by pat_completeness auto
termination
  by (relation "measure (\<lambda>(requestFn, cfg, st). retries cfg - attempts st)") auto

definition ApiService_request :: "thunk \<Rightarrow> request_options \<Rightarrow> (rejection + jsval) \<times> run" where
  "ApiService_request requestFn opts = tryRequest requestFn (destructure opts) start"

section \<open>HttpClient\<close>

text \<open>
  The repository holds two classes named \<open>HttpClient\<close> with the same constructor:
  the one of \<open>src/HttpClient.js\<close> (\<open>request\<close>, \<open>buildUrl\<close>) and a second one
  (\<open>_buildUrl\<close>, \<open>_fetch\<close>), whose \<open>get\<close> reads \<open>options.params\<close> as
  \<open>ApiService.getWeatherData\<close> passes them. Both are modelled; the members of the second
  carry the prefix \<open>HttpClient2\<close>, since an Isabelle name cannot start with an underscore.
  Of the first class \<open>post\<close>, \<open>put\<close> and \<open>delete\<close> are left out: they call \<open>request\<close>
  as \<open>get\<close> does, with another method and a serialised body.
\<close>

subsection \<open>Options, responses and the platform's fetch\<close>

text \<open>
  An options object with the properties the classes touch; \<open>None\<close> is a property the
  object does not have. A header object is the list of its properties, each key once.
\<close>

record http_options =
  http_method :: "string option"
  headers :: "(string \<times> string) list option"
  body :: "string option"
  params :: "(string \<times> string) list option"

definition no_http_options :: http_options where
  "no_http_options = \<lparr>http_method = None, headers = None, body = None, params = None\<rparr>"

text \<open>Object spread \<open>{...a, ...b}\<close>: a property of \<open>b\<close> replaces the one of \<open>a\<close>.\<close>

definition spread_options :: "http_options \<Rightarrow> http_options \<Rightarrow> http_options" where
  "spread_options a b =
     \<lparr>http_method = (case http_method b of Some m \<Rightarrow> Some m | None \<Rightarrow> http_method a),
      headers = (case headers b of Some h \<Rightarrow> Some h | None \<Rightarrow> headers a),
      body = (case body b of Some x \<Rightarrow> Some x | None \<Rightarrow> body a),
      params = (case params b of Some p \<Rightarrow> Some p | None \<Rightarrow> params a)\<rparr>"

text \<open>
  Spreading a header object into an object literal: each property of the source is
  assigned in order; spreading \<open>undefined\<close> adds nothing.
\<close>

definition spread_headers ::
  "(string \<times> string) list \<Rightarrow> (string \<times> string) list option \<Rightarrow> (string \<times> string) list" where
  "spread_headers target src =
     (case src of None \<Rightarrow> target | Some kvs \<Rightarrow> fold (\<lambda>(k, v). AList.update k v) kvs target)"

text \<open>
  The platform's \<open>Response\<close>, by what its accessors yield: \<open>content_type\<close> is
  \<open>headers.get('content-type')\<close> (\<open>None\<close> for \<open>null\<close>), \<open>json\<close> the outcome of
  \<open>response.json()\<close> (\<open>Inl\<close> the \<open>SyntaxError\<close> of a body that is not JSON) and
  \<open>text_body\<close> the outcome of \<open>response.text()\<close>. \<open>response.ok\<close> is fixed by the
  Fetch standard: the status is in the range 200 to 299.
\<close>

record response =
  status :: int
  statusText :: string
  url :: string
  content_type :: "string option"
  json :: "thrown + jsval"
  text_body :: string

definition ok :: "response \<Rightarrow> bool" where
  "ok r = (200 \<le> status r \<and> status r \<le> 299)"

text \<open>One call of the platform's \<open>fetch(url, options)\<close>: it rejects or yields a response.\<close>

type_synonym fetch = "string \<Rightarrow> http_options \<Rightarrow> thrown + response"

record client =
  baseUrl :: string
  defaultOptions :: http_options

subsection \<open>String helpers of the platform\<close>

definition startsWith :: "string \<Rightarrow> string \<Rightarrow> bool" where
  "startsWith s p = (take (length p) s = p)"

fun includes_str :: "string \<Rightarrow> string \<Rightarrow> bool" where
  "includes_str [] sub = (sub = [])"
| "includes_str (c # cs) sub = (startsWith (c # cs) sub \<or> includes_str cs sub)"

text \<open>
  \<open>new URLSearchParams(params).toString()\<close>, the application/x-www-form-urlencoded
  serialisation of the URL standard: a space becomes \<open>+\<close>, the bytes of letters, digits
  and \<open>*-._\<close> stay, every other byte becomes \<open>%XX\<close>.
\<close>

definition hex_digit :: "nat \<Rightarrow> char" where
  "hex_digit n = ''0123456789ABCDEF'' ! n"

definition unreserved :: "char \<Rightarrow> bool" where
  "unreserved c =
     (c \<in> set ''ABCDEFGHIJKLMNOPQRSTUVWXYZabcdefghijklmnopqrstuvwxyz0123456789*-._'')"

definition urlencode_byte :: "char \<Rightarrow> string" where
  "urlencode_byte c =
     (if c = CHR '' '' then ''+''
      else if unreserved c then [c]
      else [CHR ''%'', hex_digit (of_char c div 16), hex_digit (of_char c mod 16)])"

definition urlencode :: "string \<Rightarrow> string" where
  "urlencode s = concat (map urlencode_byte s)"

fun URLSearchParams_toString :: "(string \<times> string) list \<Rightarrow> string" where
  "URLSearchParams_toString [] = []"
| "URLSearchParams_toString [(k, v)] = urlencode k @ ''='' @ urlencode v"
| "URLSearchParams_toString ((k, v) # kvs) =
     urlencode k @ ''='' @ urlencode v @ ''&'' @ URLSearchParams_toString kvs"

subsection \<open>The class of src/HttpClient.js\<close>

definition buildUrl :: "client \<Rightarrow> string \<Rightarrow> string" where
  "buildUrl c endpoint =
     (if startsWith endpoint ''http'' then endpoint else baseUrl c @ endpoint)"

text \<open>The plain object \<open>request\<close> throws for a response that is not ok.\<close>

definition http_error_object :: "response \<Rightarrow> failure" where
  "http_error_object r =
     \<lparr>err_name = None, err_message = None, err_status = Some (status r),
      err_statusText = Some (statusText r), err_url = Some (url r), err_data = None\<rparr>"

text \<open>
  \<open>request\<close>: the \<open>catch\<close> block rethrows what it caught, so a rejection of \<open>fetch\<close>
  or of \<open>response.json()\<close> and the thrown object leave the call unchanged.
\<close>

definition HttpClient_request :: "client \<Rightarrow> fetch \<Rightarrow> string \<Rightarrow> http_options \<Rightarrow> thrown + jsval" where
  "HttpClient_request c fetch endpoint options =
     (case fetch (buildUrl c endpoint) (spread_options (defaultOptions c) options) of
        Inl error \<Rightarrow> Inl error
      | Inr response \<Rightarrow>
          if \<not> ok response then Inl (Obj (http_error_object response))
          else if (case content_type response of
                     None \<Rightarrow> False
                   | Some contentType \<Rightarrow>
                       contentType \<noteq> [] \<and> includes_str contentType ''application/json'')
          then json response
          else Inr (JStr (text_body response)))"

definition HttpClient_get :: "client \<Rightarrow> fetch \<Rightarrow> string \<Rightarrow> http_options \<Rightarrow> thrown + jsval" where
  "HttpClient_get c fetch endpoint options =
     HttpClient_request c fetch endpoint
       (spread_options options (no_http_options\<lparr>http_method := Some ''GET''\<rparr>))"

subsection \<open>The second class (private helpers for the URL and the fetch)\<close>

definition HttpClient2_buildUrl :: "client \<Rightarrow> string \<Rightarrow> (string \<times> string) list option \<Rightarrow> string" where
  "HttpClient2_buildUrl c endpoint ps =
     (let queryString = URLSearchParams_toString (case ps of None \<Rightarrow> [] | Some kvs \<Rightarrow> kvs)
      in baseUrl c @ endpoint @ (if queryString \<noteq> [] then ''?'' @ queryString else []))"

text \<open>
  The object literal \<open>finalOptions\<close>: the property \<open>headers\<close> is written first, then
  \<open>...options\<close> is spread over it.
\<close>

definition finalOptions :: "client \<Rightarrow> http_options \<Rightarrow> http_options" where
  "finalOptions c options =
     spread_options
       (no_http_options
          \<lparr>headers :=
             Some (spread_headers
                     (spread_headers [(''Accept'', ''application/json'')]
                        (headers (defaultOptions c)))
                     (headers options))\<rparr>)
       options"

definition invalid_json :: jsval where
  "invalid_json = JObj [(''message'', JStr ''Invalid JSON response.'')]"

text \<open>The \<open>try\<close>/\<open>catch\<close> around \<open>response.json()\<close>.\<close>

definition decode_body :: "response \<Rightarrow> jsval" where
  "decode_body r = (case json r of Inl _ \<Rightarrow> invalid_json | Inr d \<Rightarrow> d)"

definition HttpClient2_fetch :: "client \<Rightarrow> fetch \<Rightarrow> string \<Rightarrow> http_options \<Rightarrow> thrown + jsval" where
  "HttpClient2_fetch c fetch target options =
     (case fetch target (finalOptions c options) of
        Inl rejected \<Rightarrow> Inl rejected
      | Inr response \<Rightarrow>
          (let data = decode_body response in
           if \<not> ok response then
             (case get_prop data ''message'' of
                Inl type_error \<Rightarrow> Inl type_error
              | Inr m \<Rightarrow>
                  (case js_String (if truthy m then m else JStr ''HTTP error'') of
                     Inl type_error \<Rightarrow> Inl type_error
                   | Inr msg \<Rightarrow>
                       Inl (Obj ((new_Error ''Error'' msg)
                              \<lparr>err_status := Some (status response), err_data := Some data\<rparr>))))
           else Inr data))"

definition HttpClient2_get :: "client \<Rightarrow> fetch \<Rightarrow> string \<Rightarrow> http_options \<Rightarrow> thrown + jsval" where
  "HttpClient2_get c fetch endpoint options =
     HttpClient2_fetch c fetch (HttpClient2_buildUrl c endpoint (params options))
       (spread_options (no_http_options\<lparr>http_method := Some ''GET''\<rparr>) options)"

section \<open>ApiService.getWeatherData\<close>

definition weather_failed :: string where
  "weather_failed = [CHR 0xEA, CHR 0xB8, CHR 0xB0, CHR 0xEC, CHR 0x83, CHR 0x81, CHR 0x20,
     CHR 0xEB, CHR 0x8D, CHR 0xB0, CHR 0xEC, CHR 0x9D, CHR 0xB4, CHR 0xED, CHR 0x84, CHR 0xB0,
     CHR 0x20, CHR 0xEC, CHR 0xA1, CHR 0xB0, CHR 0xED, CHR 0x9A, CHR 0x8C, CHR 0xEC, CHR 0x97,
     CHR 0x90, CHR 0x20, CHR 0xEC, CHR 0x8B, CHR 0xA4, CHR 0xED, CHR 0x8C, CHR 0xA8, CHR 0xED,
     CHR 0x96, CHR 0x88, CHR 0xEC, CHR 0x8A, CHR 0xB5, CHR 0xEB, CHR 0x8B, CHR 0x88, CHR 0xEB,
     CHR 0x8B, CHR 0xA4, CHR 0x2E]"

text \<open>\<open>res => res.response?.body?.items?.item || []\<close>\<close>

definition weather_transform :: "jsval \<Rightarrow> thrown + jsval" where
  "weather_transform res =
     (case get_prop res ''response'' of
        Inl type_error \<Rightarrow> Inl type_error
      | Inr r \<Rightarrow>
          (let item = optional_prop (optional_prop (optional_prop r ''body'') ''items'') ''item''
           in Inr (if truthy item then item else JArr [])))"

definition spread_request_options :: "request_options \<Rightarrow> request_options \<Rightarrow> request_options" where
  "spread_request_options a b =
     \<lparr>opt_retries = (case opt_retries b of Some n \<Rightarrow> Some n | None \<Rightarrow> opt_retries a),
      opt_retryDelay = (case opt_retryDelay b of Some d \<Rightarrow> Some d | None \<Rightarrow> opt_retryDelay a),
      opt_errorMessage =
        (case opt_errorMessage b of Some m \<Rightarrow> Some m | None \<Rightarrow> opt_errorMessage a),
      opt_transformResponse =
        (case opt_transformResponse b of Some t \<Rightarrow> Some t | None \<Rightarrow> opt_transformResponse a),
      opt_validateStatus =
        (case opt_validateStatus b of Some p \<Rightarrow> Some p | None \<Rightarrow> opt_validateStatus a)\<rparr>"

text \<open>
  \<open>get k\<close> is call number \<open>k\<close> of \<open>this.client.get\<close>: the method of whichever
  \<open>HttpClient\<close> the service was built with, on the outcome of that call's fetch.
\<close>

definition getWeatherData ::
  "(nat \<Rightarrow> string \<Rightarrow> http_options \<Rightarrow> thrown + jsval) \<Rightarrow> (string \<times> string) list option \<Rightarrow>
   request_options \<Rightarrow> (rejection + jsval) \<times> run" where
  "getWeatherData get ps options =
     ApiService_request
       (\<lambda>k. get k ''getWthrDataList'' (no_http_options\<lparr>params := ps\<rparr>))
       (spread_request_options
          (no_options\<lparr>opt_errorMessage := Some weather_failed,
                      opt_transformResponse := Some weather_transform\<rparr>)
          options)"

section \<open>Concrete inputs\<close>

text \<open>
  A client, a platform that answers every fetch with the same response, and one that
  answers with the requested URL as plain text; the properties below are evaluated on
  them.
\<close>

definition example_client :: client where
  "example_client = \<lparr>baseUrl = ''http://api.example/'', defaultOptions = no_http_options\<rparr>"

definition respond :: "response \<Rightarrow> fetch" where
  "respond r = (\<lambda>target options. Inr r)"

definition syntax_error :: thrown where
  "syntax_error = Obj (new_Error ''SyntaxError'' ''Unexpected token'')"

definition echo_url :: fetch where
  "echo_url =
     (\<lambda>target options.
        Inr \<lparr>status = 200, statusText = ''OK'', url = target,
             content_type = Some ''text/plain'', json = Inl syntax_error, text_body = target\<rparr>)"

section \<open>Properties of the retry loop\<close>

declare tryRequest.simps [simp del]

declare digits.simps [simp del]

lemma try_block_rejected: "requestFn k = Inl err \<Longrightarrow> try_block requestFn cfg k = Inl err"
  by (simp add: try_block_def)

lemma try_block_accepted:
  "requestFn k = Inr res \<Longrightarrow> accepted cfg res \<Longrightarrow>
   try_block requestFn cfg k = transformResponse cfg res"
  by (simp add: try_block_def accepted_def split: option.splits)

lemma try_block_invalid:
  "requestFn k = Inr res \<Longrightarrow> validateStatus cfg = Some p \<Longrightarrow> \<not> p res \<Longrightarrow>
   try_block requestFn cfg k = Inl (Obj validation_failed)"
  by (simp add: try_block_def)

text \<open>
  The first \<open>j\<close> attempts from state \<open>st\<close> fail and the next one succeeds within the
  budget: the loop returns that value after \<open>j\<close> waits.
\<close>

lemma tryRequest_succeeds:
  assumes "\<And>k. k < j \<Longrightarrow> isl (try_block f cfg (invocations st + k))"
    and "try_block f cfg (invocations st + j) = Inr v"
    and "attempts st + j \<le> retries cfg"
  shows "tryRequest f cfg st =
           (Inr v, \<lparr>attempts = attempts st + j, invocations = invocations st + j + 1,
                    waits = waits st @ replicate j (retryDelay cfg)\<rparr>)"
  using assms
proof (induction j arbitrary: st)
  case 0
  then show ?case by (subst tryRequest.simps) simp
next
  case (Suc j)
  let ?st = "st\<lparr>attempts := attempts st + 1, invocations := invocations st + 1,
                  waits := waits st @ [retryDelay cfg]\<rparr>"
  from Suc.prems(1) [of 0] obtain e where e: "try_block f cfg (invocations st) = Inl e"
    by (cases "try_block f cfg (invocations st)") auto
  have step: "tryRequest f cfg st = tryRequest f cfg ?st"
    using e Suc.prems(3) by (subst tryRequest.simps) simp
  have "tryRequest f cfg ?st =
          (Inr v, \<lparr>attempts = attempts ?st + j, invocations = invocations ?st + j + 1,
                   waits = waits ?st @ replicate j (retryDelay cfg)\<rparr>)"
  proof (rule Suc.IH)
    fix k assume "k < j"
    then show "isl (try_block f cfg (invocations ?st + k))"
      using Suc.prems(1) [of "Suc k"] by simp
  next
    show "try_block f cfg (invocations ?st + j) = Inr v"
      using Suc.prems(2) by simp
  next
    show "attempts ?st + j \<le> retries cfg"
      using Suc.prems(3) by simp
  qed
  with step show ?case by (simp add: replicate_append_same)
qed

text \<open>
  Every attempt of the remaining budget fails: the loop makes them all, waits between
  them and wraps the failure of the last one.
\<close>

lemma tryRequest_exhausted:
  assumes "\<And>k. k \<le> n \<Longrightarrow> isl (try_block f cfg (invocations st + k))"
    and "attempts st + n = retries cfg"
  shows "tryRequest f cfg st =
           (Inl (enhance cfg (projl (try_block f cfg (invocations st + n)))),
            \<lparr>attempts = retries cfg, invocations = invocations st + n + 1,
             waits = waits st @ replicate n (retryDelay cfg)\<rparr>)"
  using assms
proof (induction n arbitrary: st)
  case 0
  from "0.prems"(1) [of 0] obtain e where e: "try_block f cfg (invocations st) = Inl e"
    by (cases "try_block f cfg (invocations st)") auto
  with "0.prems"(2) show ?case by (subst tryRequest.simps) simp
next
  case (Suc n)
  let ?st = "st\<lparr>attempts := attempts st + 1, invocations := invocations st + 1,
                  waits := waits st @ [retryDelay cfg]\<rparr>"
  from Suc.prems(1) [of 0] obtain e where e: "try_block f cfg (invocations st) = Inl e"
    by (cases "try_block f cfg (invocations st)") auto
  have step: "tryRequest f cfg st = tryRequest f cfg ?st"
    using e Suc.prems(2) by (subst tryRequest.simps) simp
  have "tryRequest f cfg ?st =
          (Inl (enhance cfg (projl (try_block f cfg (invocations ?st + n)))),
           \<lparr>attempts = retries cfg, invocations = invocations ?st + n + 1,
            waits = waits ?st @ replicate n (retryDelay cfg)\<rparr>)"
  proof (rule Suc.IH)
    fix k assume "k \<le> n"
    then show "isl (try_block f cfg (invocations ?st + k))"
      using Suc.prems(1) [of "Suc k"] by simp
  next
    show "attempts ?st + n = retries cfg"
      using Suc.prems(2) by simp
  qed
  with step show ?case by (simp add: replicate_append_same)
qed


lemma request_exhausted:
  assumes "\<And>k. k \<le> retries (destructure opts) \<Longrightarrow> try_block f (destructure opts) k = Inl (e k)"
  shows "ApiService_request f opts =
           (Inl (enhance (destructure opts) (e (retries (destructure opts)))),
            \<lparr>attempts = retries (destructure opts),
             invocations = retries (destructure opts) + 1,
             waits = replicate (retries (destructure opts)) (retryDelay (destructure opts))\<rparr>)"
proof -
  let ?cfg = "destructure opts"
  have "tryRequest f ?cfg start =
          (Inl (enhance ?cfg (projl (try_block f ?cfg (invocations start + retries ?cfg)))),
           \<lparr>attempts = retries ?cfg, invocations = invocations start + retries ?cfg + 1,
            waits = waits start @ replicate (retries ?cfg) (retryDelay ?cfg)\<rparr>)"
    by (rule tryRequest_exhausted) (simp_all add: assms start_def)
  then show ?thesis
    by (simp add: ApiService_request_def start_def assms)
qed

lemma request_succeeds:
  assumes "\<And>k. k < j \<Longrightarrow> isl (try_block f (destructure opts) k)"
    and "try_block f (destructure opts) j = Inr v"
    and "j \<le> retries (destructure opts)"
  shows "ApiService_request f opts =
           (Inr v, \<lparr>attempts = j, invocations = j + 1,
                    waits = replicate j (retryDelay (destructure opts))\<rparr>)"
proof -
  let ?cfg = "destructure opts"
  have "tryRequest f ?cfg start =
          (Inr v, \<lparr>attempts = attempts start + j, invocations = invocations start + j + 1,
                   waits = waits start @ replicate j (retryDelay ?cfg)\<rparr>)"
    by (rule tryRequest_succeeds) (simp_all add: assms start_def)
  then show ?thesis
    by (simp add: ApiService_request_def start_def)
qed

lemma destructure_simps [simp]:
  "retries (destructure opts) = (case opt_retries opts of Some n \<Rightarrow> n | None \<Rightarrow> 1)"
  "retryDelay (destructure opts) = (case opt_retryDelay opts of Some d \<Rightarrow> d | None \<Rightarrow> 1000)"
  "errorMessage (destructure opts) =
     (case opt_errorMessage opts of Some m \<Rightarrow> m | None \<Rightarrow> ''API request failed.'')"
  "transformResponse (destructure opts) =
     (case opt_transformResponse opts of Some t \<Rightarrow> t | None \<Rightarrow> Inr)"
  "validateStatus (destructure opts) = opt_validateStatus opts"
  by (simp_all add: destructure_def)



text \<open>What the end of the \<open>catch\<close> block makes of a failure, by its kind.\<close>

lemma enhance_not_nullish:
  "err \<noteq> Threw_null \<Longrightarrow> err \<noteq> Threw_undefined \<Longrightarrow>
   enhance cfg err
     = Enhanced \<lparr>message = final_message cfg (carried_status err), originalError = err\<rparr>"
  by (cases err) (simp_all add: enhance_def)

lemma enhance_null:
  "enhance cfg Threw_null = Uncaught (Obj (cannot_read JNull ''status''))"
  by (simp add: enhance_def)

lemma enhance_undefined:
  "enhance cfg Threw_undefined = Uncaught (Obj (cannot_read JUndefined ''status''))"
  by (simp add: enhance_def)

lemma final_message_simps:
  "final_message cfg None = errorMessage cfg"
  "final_message cfg (Some 0) = errorMessage cfg"
  "s \<noteq> 0 \<Longrightarrow> final_message cfg (Some s) = getErrorMessageByStatus s (errorMessage cfg)"
  by (simp_all add: final_message_def)

lemma final_message_options:
  "final_message (destructure (opts\<lparr>opt_retries := n\<rparr>)) st = final_message (destructure opts) st"
  "final_message (destructure (opts\<lparr>opt_validateStatus := v\<rparr>)) st
     = final_message (destructure opts) st"
  by (simp_all add: final_message_def split: option.splits)

section \<open>The claims about the retry loop\<close>



text \<open>
  C2, as the claim states it, fails for a thunk that fails outright with \<open>null\<close>: the
  run under the rejecting validator ends in the wrapped validation error, the run of that
  thunk ends, after as many invocations, in the bare \<open>TypeError\<close> of reading
  \<open>err.status\<close>, which is no wrapping and carries no cause.
\<close>

theorem request_rejecting_validator_counterexample:
  "fst (ApiService_request (\<lambda>k. Inr (JStr ''pong''))
          (no_options\<lparr>opt_retries := Some 2, opt_validateStatus := Some (\<lambda>res. False)\<rparr>))
     = Inl (Enhanced \<lparr>message = ''API request failed.'', originalError = Obj validation_failed\<rparr>)
   \<and> fst (ApiService_request (\<lambda>k. Inl Threw_null)
          (no_options\<lparr>opt_retries := Some 2, opt_validateStatus := Some (\<lambda>res. False)\<rparr>))
     = Inl (Uncaught (Obj (cannot_read JNull ''status'')))
   \<and> invocations (snd (ApiService_request (\<lambda>k. Inr (JStr ''pong''))
          (no_options\<lparr>opt_retries := Some 2, opt_validateStatus := Some (\<lambda>res. False)\<rparr>))) = 3
   \<and> invocations (snd (ApiService_request (\<lambda>k. Inl Threw_null)
          (no_options\<lparr>opt_retries := Some 2, opt_validateStatus := Some (\<lambda>res. False)\<rparr>))) = 3"
proof -
  let ?opts = "no_options\<lparr>opt_retries := Some 2, opt_validateStatus := Some (\<lambda>res. False)\<rparr>"
  have r1: "ApiService_request (\<lambda>k. Inr (JStr ''pong'')) ?opts =
          (Inl (enhance (destructure ?opts) ((\<lambda>k. Obj validation_failed) (retries (destructure ?opts)))),
           \<lparr>attempts = retries (destructure ?opts), invocations = retries (destructure ?opts) + 1,
            waits = replicate (retries (destructure ?opts)) (retryDelay (destructure ?opts))\<rparr>)"
    by (rule request_exhausted) (simp add: try_block_def)
  have r2: "ApiService_request (\<lambda>k. Inl Threw_null) ?opts =
          (Inl (enhance (destructure ?opts) ((\<lambda>k. Threw_null) (retries (destructure ?opts)))),
           \<lparr>attempts = retries (destructure ?opts), invocations = retries (destructure ?opts) + 1,
            waits = replicate (retries (destructure ?opts)) (retryDelay (destructure ?opts))\<rparr>)"
    by (rule request_exhausted) (simp add: try_block_def)
  show ?thesis
    unfolding r1 r2
    by (simp add: enhance_def final_message_def no_options_def validation_failed_def new_Error_def)
qed

text \<open>
  C2, amended. With a validator that rejects every response, a thunk that always responds
  is run exactly like a thunk that fails outright on every invocation: the same attempts,
  invocations and waits (\<open>retries + 1\<close> invocations). The first run fails with the
  wrapping of the validation error; the second, when the thunk's last failure is neither
  \<open>null\<close> nor \<open>undefined\<close>, fails with the wrapping of that failure, built by the same
  rule (message by the status the failure carries, the failure as \<open>originalError\<close>).
  The run under the rejecting validator is equal, in result and effects, to the run of
  the thunk that rejects with the validation error each time.
\<close>

theorem request_rejecting_validator_as_failing_thunk:
  assumes "opt_validateStatus opts = Some p"
    and "\<forall>res. \<not> p res"
    and "\<forall>k. \<not> isl (responding k)"
    and "\<forall>k. failing k = Inl (e k)"
  shows "snd (ApiService_request responding opts)
           = snd (ApiService_request failing (opts\<lparr>opt_validateStatus := v\<rparr>))
       \<and> invocations (snd (ApiService_request responding opts)) = retries (destructure opts) + 1
       \<and> fst (ApiService_request responding opts)
           = Inl (Enhanced \<lparr>message = errorMessage (destructure opts),
                            originalError = Obj validation_failed\<rparr>)
       \<and> (e (retries (destructure opts)) \<noteq> Threw_null
            \<and> e (retries (destructure opts)) \<noteq> Threw_undefined \<longrightarrow>
          fst (ApiService_request failing (opts\<lparr>opt_validateStatus := v\<rparr>))
            = Inl (Enhanced
                    \<lparr>message = final_message (destructure opts)
                                 (carried_status (e (retries (destructure opts)))),
                     originalError = e (retries (destructure opts))\<rparr>))
       \<and> ApiService_request responding opts
           = ApiService_request (\<lambda>k. Inl (Obj validation_failed)) (opts\<lparr>opt_validateStatus := v\<rparr>)"
proof -
  let ?cfg = "destructure opts"
  let ?opts' = "opts\<lparr>opt_validateStatus := v\<rparr>"
  have invalid: "try_block responding ?cfg k = Inl (Obj validation_failed)" for k
  proof -
    from assms(3) obtain res where "responding k = Inr res"
      by (cases "responding k") (auto dest: spec [of _ k])
    then show ?thesis
      using assms(1,2) by (intro try_block_invalid [where p = p and res = res]) simp_all
  qed
  have r1: "ApiService_request responding opts =
          (Inl (enhance ?cfg (Obj validation_failed)),
           \<lparr>attempts = retries ?cfg, invocations = retries ?cfg + 1,
            waits = replicate (retries ?cfg) (retryDelay ?cfg)\<rparr>)"
    by (rule request_exhausted [where e = "\<lambda>k. Obj validation_failed"]) (rule invalid)
  have r2: "ApiService_request failing ?opts' =
          (Inl (enhance (destructure ?opts') (e (retries (destructure ?opts')))),
           \<lparr>attempts = retries (destructure ?opts'),
            invocations = retries (destructure ?opts') + 1,
            waits = replicate (retries (destructure ?opts')) (retryDelay (destructure ?opts'))\<rparr>)"
    by (rule request_exhausted) (simp add: try_block_rejected assms(4))
  have r3: "ApiService_request (\<lambda>k. Inl (Obj validation_failed)) ?opts' =
          (Inl (enhance (destructure ?opts') (Obj validation_failed)),
           \<lparr>attempts = retries (destructure ?opts'),
            invocations = retries (destructure ?opts') + 1,
            waits = replicate (retries (destructure ?opts')) (retryDelay (destructure ?opts'))\<rparr>)"
    by (rule request_exhausted [where e = "\<lambda>k. Obj validation_failed"])
      (simp add: try_block_rejected)
  have same: "enhance (destructure ?opts') x = enhance ?cfg x" for x
    by (simp add: enhance_def final_message_options split: sum.splits)
  have plain: "enhance ?cfg (Obj validation_failed)
                 = Enhanced \<lparr>message = errorMessage ?cfg, originalError = Obj validation_failed\<rparr>"
    by (simp add: enhance_def final_message_def validation_failed_def new_Error_def)
  have wrap: "enhance ?cfg (e (retries ?cfg))
                = Enhanced \<lparr>message = final_message ?cfg (carried_status (e (retries ?cfg))),
                             originalError = e (retries ?cfg)\<rparr>"
    if "e (retries ?cfg) \<noteq> Threw_null" and "e (retries ?cfg) \<noteq> Threw_undefined"
    using that by (rule enhance_not_nullish)
  show ?thesis
    unfolding r1 r2 r3 same plain
    using wrap by simp
qed

theorem request_rejecting_validator_as_failing_thunk_witness:
  "opt_validateStatus (no_options\<lparr>opt_retries := Some 2, opt_validateStatus := Some (\<lambda>res. False)\<rparr>)
     = Some (\<lambda>res. False)
   \<and> (\<forall>k. \<not> isl ((\<lambda>k. Inr (JStr ''pong'')) k :: thrown + jsval))
   \<and> snd (ApiService_request (\<lambda>k. Inr (JStr ''pong''))
            (no_options\<lparr>opt_retries := Some 2, opt_validateStatus := Some (\<lambda>res. False)\<rparr>))
       = snd (ApiService_request (\<lambda>k. Inl (Obj (new_Error ''TypeError'' ''Failed to fetch'')))
            (no_options\<lparr>opt_retries := Some 2, opt_validateStatus := None\<rparr>))
   \<and> invocations (snd (ApiService_request (\<lambda>k. Inr (JStr ''pong''))
            (no_options\<lparr>opt_retries := Some 2, opt_validateStatus := Some (\<lambda>res. False)\<rparr>))) = 3
   \<and> fst (ApiService_request (\<lambda>k. Inr (JStr ''pong''))
            (no_options\<lparr>opt_retries := Some 2, opt_validateStatus := Some (\<lambda>res. False)\<rparr>))
       = Inl (Enhanced \<lparr>message = ''API request failed.'', originalError = Obj validation_failed\<rparr>)
   \<and> fst (ApiService_request (\<lambda>k. Inl (Obj (new_Error ''TypeError'' ''Failed to fetch'')))
            (no_options\<lparr>opt_retries := Some 2, opt_validateStatus := None\<rparr>))
       = Inl (Enhanced \<lparr>message = ''API request failed.'',
                        originalError = Obj (new_Error ''TypeError'' ''Failed to fetch'')\<rparr>)"
proof -
  let ?opts = "no_options\<lparr>opt_retries := Some 2, opt_validateStatus := Some (\<lambda>res. False)\<rparr>"
  let ?err = "Obj (new_Error ''TypeError'' ''Failed to fetch'')"
  have h1: "opt_validateStatus ?opts = Some (\<lambda>res. False)"
    by simp
  have h2: "\<forall>res::jsval. \<not> (\<lambda>res. False) res"
    by simp
  have h3: "\<forall>k. \<not> isl ((\<lambda>k. Inr (JStr ''pong'')) k :: thrown + jsval)"
    by simp
  have h4: "\<forall>k. (\<lambda>k. Inl ?err) k = (Inl ((\<lambda>k. ?err) k) :: thrown + jsval)"
    by simp
  have h5: "(\<lambda>k. ?err) (retries (destructure ?opts)) \<noteq> Threw_null"
    by simp
  have h6: "(\<lambda>k. ?err) (retries (destructure ?opts)) \<noteq> Threw_undefined"
    by simp
  note inst = request_rejecting_validator_as_failing_thunk [OF h1 h2 h3 h4, where v = None]
  have c1: "snd (ApiService_request (\<lambda>k. Inr (JStr ''pong'')) ?opts)
       = snd (ApiService_request (\<lambda>k. Inl ?err)
            (no_options\<lparr>opt_retries := Some 2, opt_validateStatus := None\<rparr>))"
    using inst [THEN conjunct1] by simp
  have c2: "invocations (snd (ApiService_request (\<lambda>k. Inr (JStr ''pong'')) ?opts)) = 3"
    using inst [THEN conjunct2, THEN conjunct1] by simp
  have c3: "fst (ApiService_request (\<lambda>k. Inr (JStr ''pong'')) ?opts)
       = Inl (Enhanced \<lparr>message = ''API request failed.'', originalError = Obj validation_failed\<rparr>)"
    using inst [THEN conjunct2, THEN conjunct2, THEN conjunct1] by (simp add: no_options_def)
  have c4: "fst (ApiService_request (\<lambda>k. Inl ?err)
            (no_options\<lparr>opt_retries := Some 2, opt_validateStatus := None\<rparr>))
       = Inl (Enhanced \<lparr>message = ''API request failed.'', originalError = ?err\<rparr>)"
    using inst [THEN conjunct2, THEN conjunct2, THEN conjunct2, THEN conjunct1] h5 h6
    by (simp add: no_options_def final_message_def new_Error_def)
  from h1 h3 c1 c2 c3 c4 show ?thesis by blast
qed



text \<open>
  C8, as the claim states it, fails for a thunk whose single invocation fails with
  \<open>null\<close>: there is one invocation and no wait, but the call fails with the bare
  \<open>TypeError\<close> of reading \<open>err.status\<close>, which wraps nothing and carries no cause.
\<close>

theorem request_no_retries_counterexample:
  "ApiService_request (\<lambda>k. Inl Threw_null) (no_options\<lparr>opt_retries := Some 0\<rparr>)
     = (Inl (Uncaught (Obj (cannot_read JNull ''status''))),
        \<lparr>attempts = 0, invocations = 1, waits = []\<rparr>)"
proof -
  let ?opts = "no_options\<lparr>opt_retries := Some 0\<rparr>"
  have "ApiService_request (\<lambda>k. Inl Threw_null) ?opts =
          (Inl (enhance (destructure ?opts) ((\<lambda>k. Threw_null) (retries (destructure ?opts)))),
           \<lparr>attempts = retries (destructure ?opts), invocations = retries (destructure ?opts) + 1,
            waits = replicate (retries (destructure ?opts)) (retryDelay (destructure ?opts))\<rparr>)"
    by (rule request_exhausted) (simp add: try_block_def)
  then show ?thesis by (simp add: enhance_def)
qed

text \<open>
  C8, amended. With \<open>retries = 0\<close> and a thunk whose single invocation fails with a
  value other than \<open>null\<close> and \<open>undefined\<close>, \<open>request\<close> invokes the thunk once, awaits
  no timeout and fails with the wrapping whose \<open>originalError\<close> is that raw failure and
  whose message goes by the status the failure carries.
\<close>

theorem request_no_retries_fails_at_once:
  assumes "requestFn 0 = Inl err"
    and "err \<noteq> Threw_null"
    and "err \<noteq> Threw_undefined"
  shows "ApiService_request requestFn (opts\<lparr>opt_retries := Some 0\<rparr>)
           = (Inl (Enhanced \<lparr>message = final_message (destructure opts) (carried_status err),
                             originalError = err\<rparr>),
              \<lparr>attempts = 0, invocations = 1, waits = []\<rparr>)"
proof -
  let ?opts = "opts\<lparr>opt_retries := Some 0\<rparr>"
  have "ApiService_request requestFn ?opts =
          (Inl (enhance (destructure ?opts) ((\<lambda>k. err) (retries (destructure ?opts)))),
           \<lparr>attempts = retries (destructure ?opts), invocations = retries (destructure ?opts) + 1,
            waits = replicate (retries (destructure ?opts)) (retryDelay (destructure ?opts))\<rparr>)"
    by (rule request_exhausted) (simp add: try_block_rejected assms(1))
  then show ?thesis
    by (simp add: enhance_not_nullish [OF assms(2,3)] final_message_options)
qed

theorem request_no_retries_fails_at_once_witness:
  "ApiService_request (\<lambda>k. Inl (Obj (new_Error ''TypeError'' ''Failed to fetch'')))
       (no_options\<lparr>opt_retries := Some 0\<rparr>)
     = (Inl (Enhanced \<lparr>message = ''API request failed.'',
             originalError = Obj (new_Error ''TypeError'' ''Failed to fetch'')\<rparr>),
        \<lparr>attempts = 0, invocations = 1, waits = []\<rparr>)"
  using request_no_retries_fails_at_once
    [where requestFn = "\<lambda>k. Inl (Obj (new_Error ''TypeError'' ''Failed to fetch''))"
       and err = "Obj (new_Error ''TypeError'' ''Failed to fetch'')" and opts = no_options]
  by (simp add: final_message_def new_Error_def no_options_def)

text \<open>
  C9. A thunk that fails twice and then yields an accepted response \<open>res\<close>, run with at
  least two retries, makes \<open>request\<close> return \<open>transformResponse res\<close> after three invocations
  and two waits. A thunk that always yields the body \<open>{a: 1}\<close>, run with the transform
  \<open>r => r.a\<close> under any retries, delay and fallback message (and a validator, if any,
  that accepts the body), returns 1 on the first invocation without any wait.
\<close>

theorem request_success_path:
  "(isl (requestFn 0) \<and> isl (requestFn 1) \<and> requestFn 2 = Inr res
      \<and> 2 \<le> retries (destructure opts) \<and> accepted (destructure opts) res
      \<and> transformResponse (destructure opts) res = Inr v \<longrightarrow>
    ApiService_request requestFn opts
      = (Inr v, \<lparr>attempts = 2, invocations = 3,
                 waits = [retryDelay (destructure opts), retryDelay (destructure opts)]\<rparr>))
   \<and> (accepted (destructure opts') (JObj [(''a'', JNum 1)]) \<longrightarrow>
    ApiService_request (\<lambda>k. Inr (JObj [(''a'', JNum 1)]))
        (opts'\<lparr>opt_transformResponse := Some (\<lambda>r. get_prop r ''a'')\<rparr>)
      = (Inr (JNum 1), \<lparr>attempts = 0, invocations = 1, waits = []\<rparr>))"
proof (intro conjI impI)
  assume a: "isl (requestFn 0) \<and> isl (requestFn 1) \<and> requestFn 2 = Inr res
      \<and> 2 \<le> retries (destructure opts) \<and> accepted (destructure opts) res
      \<and> transformResponse (destructure opts) res = Inr v"
  let ?cfg = "destructure opts"
  have early: "isl (try_block requestFn ?cfg k)" if "k < 2" for k
  proof -
    from that have "k = 0 \<or> k = 1" by auto
    with a have "isl (requestFn k)" by auto
    then obtain x where "requestFn k = Inl x" by (cases "requestFn k") auto
    then show ?thesis by (simp add: try_block_rejected)
  qed
  have third: "try_block requestFn ?cfg 2 = Inr v"
    using a by (simp add: try_block_accepted)
  have "ApiService_request requestFn opts =
          (Inr v, \<lparr>attempts = 2, invocations = 2 + 1, waits = replicate 2 (retryDelay ?cfg)\<rparr>)"
    using early third a by (intro request_succeeds) simp_all
  then show "ApiService_request requestFn opts
      = (Inr v, \<lparr>attempts = 2, invocations = 3, waits = [retryDelay ?cfg, retryDelay ?cfg]\<rparr>)"
    by (simp add: numeral_2_eq_2)
next
  assume b: "accepted (destructure opts') (JObj [(''a'', JNum 1)])"
  let ?opts = "opts'\<lparr>opt_transformResponse := Some (\<lambda>r. get_prop r ''a'')\<rparr>"
  have "accepted (destructure ?opts) (JObj [(''a'', JNum 1)])"
    using b by (simp add: accepted_def)
  then have first: "try_block (\<lambda>k. Inr (JObj [(''a'', JNum 1)])) (destructure ?opts) 0 = Inr (JNum 1)"
    by (simp add: try_block_accepted get_prop_def)
  have "ApiService_request (\<lambda>k. Inr (JObj [(''a'', JNum 1)])) ?opts =
          (Inr (JNum 1), \<lparr>attempts = 0, invocations = 0 + 1,
                          waits = replicate 0 (retryDelay (destructure ?opts))\<rparr>)"
    using first by (intro request_succeeds) simp_all
  then show "ApiService_request (\<lambda>k. Inr (JObj [(''a'', JNum 1)])) ?opts
      = (Inr (JNum 1), \<lparr>attempts = 0, invocations = 1, waits = []\<rparr>)"
    by simp
qed

theorem request_success_path_witness:
  "ApiService_request
       (\<lambda>k. if k < 2 then Inl (Obj (new_Error ''TypeError'' ''Failed to fetch''))
            else Inr (JObj [(''a'', JNum 1)]))
       (no_options\<lparr>opt_retries := Some 5, opt_retryDelay := Some 10,
                   opt_transformResponse := Some (\<lambda>r. get_prop r ''a'')\<rparr>)
     = (Inr (JNum 1), \<lparr>attempts = 2, invocations = 3, waits = [10, 10]\<rparr>)
   \<and> ApiService_request (\<lambda>k. Inr (JObj [(''a'', JNum 1)]))
       (no_options\<lparr>opt_retries := Some 7, opt_transformResponse := Some (\<lambda>r. get_prop r ''a'')\<rparr>)
     = (Inr (JNum 1), \<lparr>attempts = 0, invocations = 1, waits = []\<rparr>)"
  using request_success_path
    [where requestFn = "\<lambda>k. if k < 2 then Inl (Obj (new_Error ''TypeError'' ''Failed to fetch''))
            else Inr (JObj [(''a'', JNum 1)])"
       and res = "JObj [(''a'', JNum 1)]" and v = "JNum 1"
       and opts = "no_options\<lparr>opt_retries := Some 5, opt_retryDelay := Some 10,
                   opt_transformResponse := Some (\<lambda>r. get_prop r ''a'')\<rparr>"
       and opts' = "no_options\<lparr>opt_retries := Some 7\<rparr>"]
  by (simp add: accepted_def no_options_def get_prop_def)

section \<open>The claims about the two HttpClient classes\<close>

lemma finalOptions_headers_given:
  "headers options = Some h \<Longrightarrow> headers (finalOptions c options) = Some h"
  by (simp add: finalOptions_def spread_options_def)

lemma finalOptions_headers_missing:
  "headers options = None \<Longrightarrow>
   headers (finalOptions c options)
     = Some (spread_headers [(''Accept'', ''application/json'')] (headers (defaultOptions c)))"
  by (simp add: finalOptions_def spread_options_def spread_headers_def no_http_options_def)

text \<open>
  C4. The claim: the headers of every request are the merge of \<open>Accept: application/json\<close>,
  the client's default headers and the per-call headers, so per-call headers without
  \<open>Accept\<close> leave the built-in one in place. The code builds that merge and then spreads
  \<open>...options\<close> over it: for a call with default header \<open>X-Client\<close> and per-call header
  \<open>Authorization\<close>, the options handed to fetch carry the per-call header alone, with
  neither \<open>Accept\<close> nor \<open>X-Client\<close>.
\<close>

theorem finalOptions_loses_merged_headers:
  "headers (finalOptions
      \<lparr>baseUrl = ''http://api.example/'',
       defaultOptions = no_http_options\<lparr>headers := Some [(''X-Client'', ''web'')]\<rparr>\<rparr>
      (spread_options (no_http_options\<lparr>http_method := Some ''GET''\<rparr>)
         (no_http_options\<lparr>headers := Some [(''Authorization'', ''Bearer t'')]\<rparr>)))
     = Some [(''Authorization'', ''Bearer t'')]
   \<and> spread_headers
        (spread_headers [(''Accept'', ''application/json'')] (Some [(''X-Client'', ''web'')]))
        (Some [(''Authorization'', ''Bearer t'')])
     = [(''Accept'', ''application/json''), (''X-Client'', ''web''), (''Authorization'', ''Bearer t'')]"
  by (simp add: finalOptions_def spread_options_def no_http_options_def spread_headers_def)

lemma URLSearchParams_toString_nonempty: "kvs \<noteq> [] \<Longrightarrow> URLSearchParams_toString kvs \<noteq> []"
  by (induction kvs rule: URLSearchParams_toString.induct) simp_all

text \<open>
  C5, as the claim states it, fails on both classes: the second class prefixes the base
  URL to an endpoint that starts with a scheme, and the class of src/HttpClient.js never
  appends the query parameters of a call.
\<close>

theorem url_resolution_counterexample:
  "startsWith ''http://other.example/x'' ''http''
   \<and> HttpClient2_buildUrl example_client ''http://other.example/x'' None
       = ''http://api.example/http://other.example/x''
   \<and> HttpClient2_buildUrl example_client ''http://other.example/x'' None
       \<noteq> ''http://other.example/x''
   \<and> HttpClient_get example_client echo_url ''items''
         (no_http_options\<lparr>params := Some [(''q'', ''a b'')]\<rparr>)
       = Inr (JStr ''http://api.example/items'')"
  by (simp add: startsWith_def HttpClient2_buildUrl_def example_client_def HttpClient_get_def
      HttpClient_request_def buildUrl_def echo_url_def ok_def)

text \<open>
  C5, amended. The class of src/HttpClient.js fetches the endpoint itself when it starts
  with \<open>http\<close> and the base URL followed by the endpoint otherwise, and has no query
  parameters. The second class always fetches the base URL followed by the endpoint,
  followed, when the call has a non-empty \<open>params\<close> object, by \<open>?\<close> and the parameters
  in URL-encoded form; an endpoint with a scheme is not treated apart.
\<close>

theorem url_resolution:
  "(startsWith endpoint ''http'' \<longrightarrow> buildUrl c endpoint = endpoint)
   \<and> (\<not> startsWith endpoint ''http'' \<longrightarrow> buildUrl c endpoint = baseUrl c @ endpoint)
   \<and> HttpClient_request c fetch endpoint options
       = HttpClient_request c (\<lambda>target. fetch (buildUrl c endpoint)) endpoint options
   \<and> HttpClient2_buildUrl c endpoint ps
       = baseUrl c @ endpoint
         @ (case ps of
              None \<Rightarrow> []
            | Some kvs \<Rightarrow> if kvs = [] then [] else ''?'' @ URLSearchParams_toString kvs)
   \<and> HttpClient2_get c fetch endpoint options
       = HttpClient2_get c (\<lambda>target. fetch (HttpClient2_buildUrl c endpoint (params options)))
           endpoint options"
proof -
  have "HttpClient2_buildUrl c endpoint ps
       = baseUrl c @ endpoint
         @ (case ps of
              None \<Rightarrow> []
            | Some kvs \<Rightarrow> if kvs = [] then [] else ''?'' @ URLSearchParams_toString kvs)"
    by (cases ps) (simp_all add: HttpClient2_buildUrl_def URLSearchParams_toString_nonempty)
  then show ?thesis
    by (simp add: buildUrl_def HttpClient_request_def HttpClient2_get_def HttpClient2_fetch_def)
qed

theorem url_resolution_witness:
  "startsWith ''https://other.example/x'' ''http''
   \<and> buildUrl example_client ''https://other.example/x'' = ''https://other.example/x''
   \<and> \<not> startsWith ''items'' ''http''
   \<and> buildUrl example_client ''items'' = ''http://api.example/items''
   \<and> HttpClient2_buildUrl example_client ''getWthrDataList''
         (Some [(''pageNo'', ''1''), (''q'', ''a b&c'')])
       = ''http://api.example/getWthrDataList?pageNo=1&q=a+b%26c''"
proof -
  have s1: "startsWith ''https://other.example/x'' ''http''"
    by (simp add: startsWith_def)
  have s2: "\<not> startsWith ''items'' ''http''"
    by (simp add: startsWith_def)
  have c1: "buildUrl example_client ''https://other.example/x'' = ''https://other.example/x''"
    using url_resolution [THEN conjunct1] s1 by blast
  have c2: "buildUrl example_client ''items'' = ''http://api.example/items''"
    using url_resolution [where c = example_client, THEN conjunct2, THEN conjunct1] s2
    by (simp add: example_client_def)
  have c3: "HttpClient2_buildUrl example_client ''getWthrDataList''
         (Some [(''pageNo'', ''1''), (''q'', ''a b&c'')])
       = ''http://api.example/getWthrDataList?pageNo=1&q=a+b%26c''"
    using url_resolution [where c = example_client and endpoint = "''getWthrDataList''"
        and ps = "Some [(''pageNo'', ''1''), (''q'', ''a b&c'')]",
        THEN conjunct2, THEN conjunct2, THEN conjunct2, THEN conjunct1]
    by (simp add: example_client_def urlencode_def urlencode_byte_def unreserved_def hex_digit_def)
  from s1 s2 c1 c2 c3 show ?thesis by blast
qed

text \<open>
  C6, as the claim states it, fails on the second class: for a response with status 404
  its error carries the status and the decoded body, and neither the status text nor
  the URL.
\<close>

theorem http_error_counterexample:
  "\<not> ok \<lparr>status = 404, statusText = ''Not Found'', url = ''http://api.example/x'',
           content_type = Some ''application/json'', json = Inr (JObj []), text_body = ''{}''\<rparr>
   \<and> HttpClient2_fetch example_client
        (respond \<lparr>status = 404, statusText = ''Not Found'', url = ''http://api.example/x'',
                  content_type = Some ''application/json'', json = Inr (JObj []),
                  text_body = ''{}''\<rparr>)
        ''http://api.example/x'' no_http_options
       = Inl (Obj \<lparr>err_name = Some ''Error'', err_message = Some ''HTTP error'',
                   err_status = Some 404, err_statusText = None, err_url = None,
                   err_data = Some (JObj [])\<rparr>)"
  by (simp add: ok_def HttpClient2_fetch_def respond_def decode_body_def get_prop_def
      new_Error_def Let_def)

text \<open>
  C6, amended. For a response that is not ok (status outside 200 to 299), \<open>request\<close> of
  src/HttpClient.js fails with a plain object that carries the status, the status text
  and the URL of the response. \<open>_fetch\<close> of the second class fails, when the decoded body
  is neither \<open>null\<close> nor \<open>undefined\<close> and its \<open>message\<close> converts to a string, with an
  \<open>Error\<close> that carries the status and the decoded body and neither status text nor URL;
  its message is the body's \<open>message\<close> when that is a non-empty string, and
  \<open>HTTP error\<close> when the body has no truthy \<open>message\<close>.
\<close>

theorem http_error_contents:
  "(fetch (buildUrl c endpoint) (spread_options (defaultOptions c) options) = Inr r \<and> \<not> ok r \<longrightarrow>
      HttpClient_request c fetch endpoint options
        = Inl (Obj \<lparr>err_name = None, err_message = None, err_status = Some (status r),
                    err_statusText = Some (statusText r), err_url = Some (url r),
                    err_data = None\<rparr>))
   \<and> (fetch target (finalOptions c options) = Inr r \<and> \<not> ok r \<and> \<not> nullish (decode_body r)
        \<and> \<not> isl (js_String (own_prop (decode_body r) ''message'')) \<longrightarrow>
      (\<exists>msg. HttpClient2_fetch c fetch target options
                = Inl (Obj \<lparr>err_name = Some ''Error'', err_message = Some msg,
                            err_status = Some (status r), err_statusText = None,
                            err_url = None, err_data = Some (decode_body r)\<rparr>)
             \<and> (\<forall>s. own_prop (decode_body r) ''message'' = JStr s \<and> s \<noteq> [] \<longrightarrow> msg = s)
             \<and> (\<not> truthy (own_prop (decode_body r) ''message'') \<longrightarrow> msg = ''HTTP error'')))"
proof (intro conjI impI)
  assume "fetch (buildUrl c endpoint) (spread_options (defaultOptions c) options) = Inr r \<and> \<not> ok r"
  then show "HttpClient_request c fetch endpoint options
        = Inl (Obj \<lparr>err_name = None, err_message = None, err_status = Some (status r),
                    err_statusText = Some (statusText r), err_url = Some (url r),
                    err_data = None\<rparr>)"
    by (simp add: HttpClient_request_def http_error_object_def)
next
  let ?m = "own_prop (decode_body r) ''message''"
  assume a: "fetch target (finalOptions c options) = Inr r \<and> \<not> ok r \<and> \<not> nullish (decode_body r)
        \<and> \<not> isl (js_String ?m)"
  then obtain str where str: "js_String ?m = Inr str"
    by (cases "js_String ?m") auto
  show "\<exists>msg. HttpClient2_fetch c fetch target options
                = Inl (Obj \<lparr>err_name = Some ''Error'', err_message = Some msg,
                            err_status = Some (status r), err_statusText = None,
                            err_url = None, err_data = Some (decode_body r)\<rparr>)
             \<and> (\<forall>s. ?m = JStr s \<and> s \<noteq> [] \<longrightarrow> msg = s)
             \<and> (\<not> truthy ?m \<longrightarrow> msg = ''HTTP error'')"
  proof (cases "truthy ?m")
    case True
    with a str have "HttpClient2_fetch c fetch target options
                = Inl (Obj \<lparr>err_name = Some ''Error'', err_message = Some str,
                            err_status = Some (status r), err_statusText = None,
                            err_url = None, err_data = Some (decode_body r)\<rparr>)"
      by (simp add: HttpClient2_fetch_def get_prop_def new_Error_def Let_def)
    moreover have "\<forall>s. ?m = JStr s \<and> s \<noteq> [] \<longrightarrow> str = s"
      using str by auto
    ultimately show ?thesis using True by blast
  next
    case False
    with a have "HttpClient2_fetch c fetch target options
                = Inl (Obj \<lparr>err_name = Some ''Error'', err_message = Some ''HTTP error'',
                            err_status = Some (status r), err_statusText = None,
                            err_url = None, err_data = Some (decode_body r)\<rparr>)"
      by (simp add: HttpClient2_fetch_def get_prop_def new_Error_def Let_def)
    moreover have "\<forall>s. ?m = JStr s \<and> s \<noteq> [] \<longrightarrow> ''HTTP error'' = s"
      using False by auto
    ultimately show ?thesis by blast
  qed
qed

theorem http_error_contents_witness:
  "\<not> ok \<lparr>status = 503, statusText = ''Service Unavailable'', url = ''http://api.example/items'',
           content_type = Some ''application/json'',
           json = Inr (JObj [(''message'', JStr ''down'')]), text_body = ''down''\<rparr>
   \<and> HttpClient_request example_client
        (respond \<lparr>status = 503, statusText = ''Service Unavailable'',
                  url = ''http://api.example/items'', content_type = Some ''application/json'',
                  json = Inr (JObj [(''message'', JStr ''down'')]), text_body = ''down''\<rparr>)
        ''items'' no_http_options
       = Inl (Obj \<lparr>err_name = None, err_message = None, err_status = Some 503,
                   err_statusText = Some ''Service Unavailable'',
                   err_url = Some ''http://api.example/items'', err_data = None\<rparr>)
   \<and> HttpClient2_fetch example_client
        (respond \<lparr>status = 503, statusText = ''Service Unavailable'',
                  url = ''http://api.example/items'', content_type = Some ''application/json'',
                  json = Inr (JObj [(''message'', JStr ''down'')]), text_body = ''down''\<rparr>)
        ''http://api.example/items'' no_http_options
       = Inl (Obj \<lparr>err_name = Some ''Error'', err_message = Some ''down'', err_status = Some 503,
                   err_statusText = None, err_url = None,
                   err_data = Some (JObj [(''message'', JStr ''down'')])\<rparr>)"
proof -
  let ?r = "\<lparr>status = 503, statusText = ''Service Unavailable'', url = ''http://api.example/items'',
             content_type = Some ''application/json'',
             json = Inr (JObj [(''message'', JStr ''down'')]), text_body = ''down''\<rparr>"
  have h: "\<not> ok ?r"
    by (simp add: ok_def)
  have d: "\<not> nullish (decode_body ?r)"
    by (simp add: decode_body_def)
  have m: "own_prop (decode_body ?r) ''message'' = JStr ''down''"
    by (simp add: decode_body_def)
  have t: "\<not> isl (js_String (own_prop (decode_body ?r) ''message''))"
    by (simp add: m)
  have c1: "HttpClient_request example_client (respond ?r) ''items'' no_http_options
       = Inl (Obj \<lparr>err_name = None, err_message = None, err_status = Some 503,
                   err_statusText = Some ''Service Unavailable'',
                   err_url = Some ''http://api.example/items'', err_data = None\<rparr>)"
    using http_error_contents [where fetch = "respond ?r" and r = ?r and c = example_client
        and endpoint = "''items''" and options = no_http_options, THEN conjunct1] h
    by (simp add: respond_def)
  have "\<exists>msg. HttpClient2_fetch example_client (respond ?r) ''http://api.example/items''
                 no_http_options
                = Inl (Obj \<lparr>err_name = Some ''Error'', err_message = Some msg,
                            err_status = Some (status ?r), err_statusText = None,
                            err_url = None, err_data = Some (decode_body ?r)\<rparr>)
             \<and> (\<forall>s. own_prop (decode_body ?r) ''message'' = JStr s \<and> s \<noteq> [] \<longrightarrow> msg = s)
             \<and> (\<not> truthy (own_prop (decode_body ?r) ''message'') \<longrightarrow> msg = ''HTTP error'')"
    using http_error_contents [where fetch = "respond ?r" and r = ?r and c = example_client
        and target = "''http://api.example/items''" and options = no_http_options,
        THEN conjunct2] h d t
    by (simp add: respond_def)
  then obtain msg where
    e: "HttpClient2_fetch example_client (respond ?r) ''http://api.example/items'' no_http_options
          = Inl (Obj \<lparr>err_name = Some ''Error'', err_message = Some msg,
                      err_status = Some (status ?r), err_statusText = None,
                      err_url = None, err_data = Some (decode_body ?r)\<rparr>)"
    and s: "\<forall>s. own_prop (decode_body ?r) ''message'' = JStr s \<and> s \<noteq> [] \<longrightarrow> msg = s"
    by blast
  from s m have "msg = ''down''"
    by simp
  with e have c2: "HttpClient2_fetch example_client (respond ?r) ''http://api.example/items''
        no_http_options
       = Inl (Obj \<lparr>err_name = Some ''Error'', err_message = Some ''down'', err_status = Some 503,
                   err_statusText = None, err_url = None,
                   err_data = Some (JObj [(''message'', JStr ''down'')])\<rparr>)"
    by (simp add: decode_body_def)
  from h c1 c2 show ?thesis by blast
qed

text \<open>
  The conversion of the message, on the bodies \<open>{message: 5}\<close> and
  \<open>{message: {toString: 1}}\<close>: the error's message is the string \<open>5\<close>, and the
  \<open>Error\<close> constructor throws.
\<close>

lemma HttpClient2_fetch_numeric_message:
  "HttpClient2_fetch example_client
      (respond \<lparr>status = 500, statusText = ''Internal Server Error'',
                url = ''http://api.example/x'', content_type = Some ''application/json'',
                json = Inr (JObj [(''message'', JNum 5)]), text_body = ''5''\<rparr>)
      ''http://api.example/x'' no_http_options
     = Inl (Obj \<lparr>err_name = Some ''Error'', err_message = Some ''5'', err_status = Some 500,
                 err_statusText = None, err_url = None,
                 err_data = Some (JObj [(''message'', JNum 5)])\<rparr>)"
  by (simp add: ok_def HttpClient2_fetch_def respond_def decode_body_def get_prop_def
      new_Error_def Let_def digits.simps)

lemma HttpClient2_fetch_unconvertible_message:
  "HttpClient2_fetch example_client
      (respond \<lparr>status = 500, statusText = ''Internal Server Error'',
                url = ''http://api.example/x'', content_type = Some ''application/json'',
                json = Inr (JObj [(''message'', JObj [(''toString'', JNum 1)])]),
                text_body = ''1''\<rparr>)
      ''http://api.example/x'' no_http_options
     = Inl (Obj cannot_convert)"
  by (simp add: ok_def HttpClient2_fetch_def respond_def decode_body_def get_prop_def Let_def)

text \<open>
  C7, as the claim states it, fails on both classes: \<open>request\<close> of src/HttpClient.js
  fails the call when a body declared as JSON does not decode, and \<open>_fetch\<close> of the
  second class answers a \<open>text/plain\<close> body \<open>hello\<close> with the sentinel, not with the text.
\<close>

theorem body_decoding_counterexample:
  "HttpClient_request example_client
      (respond \<lparr>status = 200, statusText = ''OK'', url = ''http://api.example/items'',
                content_type = Some ''application/json'', json = Inl syntax_error,
                text_body = ''<html>''\<rparr>)
      ''items'' no_http_options
     = Inl syntax_error
   \<and> HttpClient2_fetch example_client
      (respond \<lparr>status = 200, statusText = ''OK'', url = ''http://api.example/items'',
                content_type = Some ''text/plain'', json = Inl syntax_error,
                text_body = ''hello''\<rparr>)
      ''http://api.example/items'' no_http_options
     = Inr (JObj [(''message'', JStr ''Invalid JSON response.'')])
   \<and> JObj [(''message'', JStr ''Invalid JSON response.'')] \<noteq> JStr ''hello''"
  by (simp add: HttpClient_request_def HttpClient2_fetch_def respond_def ok_def startsWith_def
      decode_body_def invalid_json_def Let_def)

text \<open>
  C7, amended. For an ok response, \<open>request\<close> of src/HttpClient.js yields the outcome of
  \<open>response.json()\<close> when the content type contains \<open>application/json\<close> (so a body that
  does not decode fails the call) and the body as text otherwise, also when no content
  type is declared. \<open>_fetch\<close> of the second class ignores the content type: it yields the
  JSON-decoded body, or the sentinel \<open>{message: 'Invalid JSON response.'}\<close> when the
  body does not decode, and never the text.
\<close>

theorem body_decoding:
  "(fetch (buildUrl c endpoint) (spread_options (defaultOptions c) options) = Inr r \<and> ok r \<longrightarrow>
      HttpClient_request c fetch endpoint options
        = (if (case content_type r of
                 None \<Rightarrow> False
               | Some contentType \<Rightarrow> includes_str contentType ''application/json'')
           then json r else Inr (JStr (text_body r))))
   \<and> (fetch target (finalOptions c options) = Inr r \<and> ok r \<longrightarrow>
      HttpClient2_fetch c fetch target options
        = Inr (case json r of
                 Inl decode_failure \<Rightarrow> JObj [(''message'', JStr ''Invalid JSON response.'')]
               | Inr d \<Rightarrow> d))"
proof -
  have "includes_str [] ''application/json'' = False"
    by simp
  then show ?thesis
    by (auto simp add: HttpClient_request_def HttpClient2_fetch_def decode_body_def
        invalid_json_def Let_def split: option.splits sum.splits)
qed

theorem body_decoding_witness:
  "ok \<lparr>status = 200, statusText = ''OK'', url = ''http://api.example/items'',
        content_type = Some ''application/json; charset=utf-8'',
        json = Inr (JObj [(''a'', JNum 1)]), text_body = ''a''\<rparr>
   \<and> HttpClient_request example_client
        (respond \<lparr>status = 200, statusText = ''OK'', url = ''http://api.example/items'',
                  content_type = Some ''application/json; charset=utf-8'',
                  json = Inr (JObj [(''a'', JNum 1)]), text_body = ''a''\<rparr>)
        ''items'' no_http_options
       = Inr (JObj [(''a'', JNum 1)])
   \<and> HttpClient2_fetch example_client
        (respond \<lparr>status = 200, statusText = ''OK'', url = ''http://api.example/items'',
                  content_type = Some ''application/json; charset=utf-8'',
                  json = Inr (JObj [(''a'', JNum 1)]), text_body = ''a''\<rparr>)
        ''http://api.example/items'' no_http_options
       = Inr (JObj [(''a'', JNum 1)])"
proof -
  let ?r = "\<lparr>status = 200, statusText = ''OK'', url = ''http://api.example/items'',
             content_type = Some ''application/json; charset=utf-8'',
             json = Inr (JObj [(''a'', JNum 1)]), text_body = ''a''\<rparr>"
  have h: "ok ?r"
    by (simp add: ok_def)
  have c1: "HttpClient_request example_client (respond ?r) ''items'' no_http_options
       = Inr (JObj [(''a'', JNum 1)])"
    using body_decoding [where fetch = "respond ?r" and r = ?r and c = example_client
        and endpoint = "''items''" and options = no_http_options, THEN conjunct1] h
    by (simp add: respond_def startsWith_def)
  have c2: "HttpClient2_fetch example_client (respond ?r) ''http://api.example/items'' no_http_options
       = Inr (JObj [(''a'', JNum 1)])"
    using body_decoding [where fetch = "respond ?r" and r = ?r and c = example_client
        and target = "''http://api.example/items''" and options = no_http_options,
        THEN conjunct2] h
    by (simp add: respond_def)
  from h c1 c2 show ?thesis by blast
qed

section \<open>The claim about getWeatherData\<close>

text \<open>
  On a response that is neither \<open>null\<close> nor \<open>undefined\<close> the transform does not throw:
  it yields the item when the path reaches a truthy one and the empty list otherwise.
\<close>

lemma weather_transform_defined:
  "\<not> nullish res \<Longrightarrow>
   weather_transform res
     = Inr (if truthy (optional_prop (optional_prop (optional_prop (own_prop res ''response'')
                         ''body'') ''items'') ''item'')
            then optional_prop (optional_prop (optional_prop (own_prop res ''response'')
                         ''body'') ''items'') ''item''
            else JArr [])"
  by (simp add: weather_transform_def get_prop_def Let_def)

lemma weather_transform_nullish:
  "nullish res \<Longrightarrow> weather_transform res = Inl (Obj (cannot_read res ''response''))"
  by (simp add: weather_transform_def get_prop_def)

lemma getWeatherData_settings:
  "destructure (spread_request_options
      (no_options\<lparr>opt_errorMessage := Some weather_failed,
                  opt_transformResponse := Some weather_transform\<rparr>) no_options)
     = \<lparr>retries = 1, retryDelay = 1000, errorMessage = weather_failed,
        transformResponse = weather_transform, validateStatus = None\<rparr>"
  by (simp add: destructure_def spread_request_options_def no_options_def)

lemma getWeatherData_resolves:
  assumes "get 0 ''getWthrDataList'' (no_http_options\<lparr>params := ps\<rparr>) = Inr res"
    and "\<not> nullish res"
  shows "getWeatherData get ps no_options
           = (Inr (if truthy (optional_prop (optional_prop (optional_prop
                        (own_prop res ''response'') ''body'') ''items'') ''item'')
                   then optional_prop (optional_prop (optional_prop
                        (own_prop res ''response'') ''body'') ''items'') ''item''
                   else JArr []),
              \<lparr>attempts = 0, invocations = 1, waits = []\<rparr>)"
proof -
  let ?opts = "spread_request_options
      (no_options\<lparr>opt_errorMessage := Some weather_failed,
                  opt_transformResponse := Some weather_transform\<rparr>) no_options"
  let ?f = "\<lambda>k. get k ''getWthrDataList'' (no_http_options\<lparr>params := ps\<rparr>)"
  have "try_block ?f (destructure ?opts) 0 = weather_transform res"
    using assms(1) by (simp add: try_block_def getWeatherData_settings)
  then have "ApiService_request ?f ?opts =
          (Inr (if truthy (optional_prop (optional_prop (optional_prop
                        (own_prop res ''response'') ''body'') ''items'') ''item'')
                   then optional_prop (optional_prop (optional_prop
                        (own_prop res ''response'') ''body'') ''items'') ''item''
                   else JArr []),
           \<lparr>attempts = 0, invocations = 0 + 1,
            waits = replicate 0 (retryDelay (destructure ?opts))\<rparr>)"
    using assms(2) by (intro request_succeeds) (simp_all add: weather_transform_defined)
  then show ?thesis by (simp add: getWeatherData_def)
qed

text \<open>
  C10. The claim: whenever the path \<open>res.response.body.items.item\<close> is absent at any
  level of a successful response, \<open>getWeatherData\<close> resolves to \<open>[]\<close> rather than
  failing. The code guards every level but the first: when the server answers 200 with
  the JSON body \<open>null\<close>, the transform throws on \<open>res.response\<close>, the loop retries once
  (the default) and the call fails with the wrapped \<open>TypeError\<close>.
\<close>

theorem getWeatherData_null_body_fails:
  "getWeatherData
      (\<lambda>k. HttpClient2_get example_client
             (respond \<lparr>status = 200, statusText = ''OK'',
                       url = ''http://api.example/getWthrDataList?stnIds=108'',
                       content_type = Some ''application/json'', json = Inr JNull,
                       text_body = ''null''\<rparr>))
      (Some [(''stnIds'', ''108'')]) no_options
     = (Inl (Enhanced \<lparr>message = weather_failed,
                       originalError = Obj (cannot_read JNull ''response'')\<rparr>),
        \<lparr>attempts = 1, invocations = 2, waits = [1000]\<rparr>)"
proof -
  let ?r = "\<lparr>status = 200, statusText = ''OK'',
             url = ''http://api.example/getWthrDataList?stnIds=108'',
             content_type = Some ''application/json'', json = Inr JNull,
             text_body = ''null''\<rparr>"
  let ?opts = "spread_request_options
      (no_options\<lparr>opt_errorMessage := Some weather_failed,
                  opt_transformResponse := Some weather_transform\<rparr>) no_options"
  let ?f = "\<lambda>k::nat. HttpClient2_get example_client (respond ?r) ''getWthrDataList''
                (no_http_options\<lparr>params := Some [(''stnIds'', ''108'')]\<rparr>)"
  have body: "?f k = Inr JNull" for k :: nat
    by (simp add: HttpClient2_get_def HttpClient2_fetch_def respond_def decode_body_def ok_def
        Let_def)
  have thrown: "try_block ?f (destructure ?opts) k = Inl (Obj (cannot_read JNull ''response''))" for k
    by (simp add: try_block_def body getWeatherData_settings weather_transform_nullish)
  have "ApiService_request ?f ?opts =
          (Inl (enhance (destructure ?opts)
                  ((\<lambda>k. Obj (cannot_read JNull ''response'')) (retries (destructure ?opts)))),
           \<lparr>attempts = retries (destructure ?opts),
            invocations = retries (destructure ?opts) + 1,
            waits = replicate (retries (destructure ?opts)) (retryDelay (destructure ?opts))\<rparr>)"
    by (rule request_exhausted) (rule thrown)
  then show ?thesis
    by (simp add: getWeatherData_def getWeatherData_settings enhance_def final_message_def
        cannot_read_def new_Error_def)
qed

end
